theory Spec2Isabelle
  imports Complex_Main
begin

section \<open>BioCalc: life-cycle carbon intensity of solid biofuels\<close>

text \<open>
  A shallow embedding of the calculation engine (\<^verbatim>\<open>src/core\<close>) and of the input
  validator (\<^verbatim>\<open>src/utils/validacao.py\<close>).

  Numbers. The Python code computes with \<^verbatim>\<open>int\<close> and \<^verbatim>\<open>float\<close> values mixed
  freely. They are embedded as exact rationals (\<^typ>\<open>rat\<close>): the rounding, the
  infinities and the NaN of IEEE doubles are not part of this model, and every
  statement below is a statement about the formulas of the code in exact arithmetic.

  Dictionaries. Every dictionary the code reads with \<^verbatim>\<open>d.get(key, default)\<close> is
  embedded as a record of optional fields, one per key the code reads or writes;
  \<open>None\<close> is an absent key. The field names are the keys of the source.
\<close>

subsection \<open>Factor table and biomass catalog\<close>

text \<open>
  One row of the factor table, as \<^verbatim>\<open>_carregar_fatores\<close> builds it:
  \<^verbatim>\<open>{'valor': .., 'unidade': .., 'fonte': ..}\<close>. The calculators read it with
  \<^verbatim>\<open>.get('valor', default)\<close>, so the value is optional here.
\<close>

record fator =
  valor :: "rat option"
  unidade :: string
  fonte :: string

type_synonym fatores = "string \<rightharpoonup> fator"

text \<open>\<^verbatim>\<open>self.fatores.get(nome, {}).get('valor', padrao)\<close>\<close>

definition get_valor :: "fatores \<Rightarrow> string \<Rightarrow> rat \<Rightarrow> rat" where
  "get_valor fs nome padrao =
     (case fs nome of
        None \<Rightarrow> padrao
      | Some f \<Rightarrow> (case valor f of None \<Rightarrow> padrao | Some v \<Rightarrow> v))"

text \<open>
  One entry of the biomass catalog (\<^verbatim>\<open>biomasses_preset.json\<close>, written by
  \<^verbatim>\<open>extrair_biomasses_preset\<close>). The engine reads \<^verbatim>\<open>pci\<close> and
  \<^verbatim>\<open>fator_biomassa_agricola\<close> by index.
\<close>

record perfil_biomassa =
  nome :: string
  descricao :: string
  info_pci :: rat
  unidade_pci :: string
  densidade :: rat
  info_fator_biomassa_agricola :: rat
  tipo :: string

type_synonym biomassas = "string \<rightharpoonup> perfil_biomassa"

subsection \<open>Phase inputs and phase results\<close>

text \<open>
  A phase dictionary (\<^verbatim>\<open>Dict[str, Any]\<close>). All four phases use the same Python
  type, and the aggregator writes keys of one phase into the dictionary of another,
  so there is one record with every key.
\<close>

record dados =
  quantidade_biomassa_kg :: "rat option"
  distancia_transporte_km :: "rat option"
  uso_fertilizantes_kg :: "rat option"
  uso_pesticidas_kg :: "rat option"
  luc_dluc_opcional_kg_co2 :: "rat option"
  fator_biomassa_agricola :: "rat option"
  energia_eletrica_kwh :: "rat option"
  energia_termica_mj :: "rat option"
  agua_m3 :: "rat option"
  modal_transporte :: "string option"
  distancia_km :: "rat option"
  pci :: "rat option"
  tipo_combustao :: "string option"

text \<open>The empty dictionary \<^verbatim>\<open>{}\<close>.\<close>

definition vazio :: dados where
  "vazio = \<lparr>quantidade_biomassa_kg = None, distancia_transporte_km = None,
     uso_fertilizantes_kg = None, uso_pesticidas_kg = None,
     luc_dluc_opcional_kg_co2 = None, fator_biomassa_agricola = None,
     energia_eletrica_kwh = None, energia_termica_mj = None, agua_m3 = None,
     modal_transporte = None, distancia_km = None, pci = None,
     tipo_combustao = None\<rparr>"

text \<open>\<^verbatim>\<open>d.get(key, default)\<close> on one field.\<close>

definition get :: "'a option \<Rightarrow> 'a \<Rightarrow> 'a" where
  "get campo padrao = (case campo of None \<Rightarrow> padrao | Some v \<Rightarrow> v)"

text \<open>A value of a \<^verbatim>\<open>detalhamento\<close> dictionary: a number or a string.\<close>

datatype detalhe = Num rat | Str string

text \<open>
  The dictionary a phase calculator returns. \<^verbatim>\<open>detalhamento\<close> keeps the order of the
  dictionary literal. Only the use phase sets \<^verbatim>\<open>emissoes_biogenicas_kg_co2\<close>.
\<close>

record resultado_fase =
  emissoes_kg_co2 :: rat
  detalhamento :: "(string \<times> detalhe) list"
  emissoes_biogenicas_kg_co2 :: "rat option"

subsection \<open>Agricultural phase (\<^verbatim>\<open>FaseAgricola.calcular_emissoes\<close>)\<close>

definition agricola_calcular_emissoes :: "fatores \<Rightarrow> dados \<Rightarrow> resultado_fase" where
  "agricola_calcular_emissoes fs d =
     (let biomassa_kg = get (quantidade_biomassa_kg d) 0;
          distancia = get (distancia_transporte_km d) 0;
          fertilizantes_kg = get (uso_fertilizantes_kg d) 0;
          pesticidas_kg = get (uso_pesticidas_kg d) 0;
          luc_dluc_kg_co2 = get (luc_dluc_opcional_kg_co2 d) 0;
          fator_biomassa = get (fator_biomassa_agricola d) 100.0;
          fator_fertilizante = get_valor fs ''fator_fertilizante_n'' 6540.0;
          fator_pesticida = get_valor fs ''fator_pesticida'' 10000.0;
          fator_transporte = get_valor fs ''fator_transporte_rodoviario'' 62.0;
          emissoes_biomassa = (biomassa_kg * fator_biomassa) / 1000;
          emissoes_fertilizantes = (fertilizantes_kg * fator_fertilizante) / 1000;
          emissoes_pesticidas = (pesticidas_kg * fator_pesticida) / 1000;
          emissoes_transporte = (fator_transporte * distancia * biomassa_kg / 1000) / 1000;
          emissoes_luc = luc_dluc_kg_co2;
          emissoes_totais = emissoes_biomassa + emissoes_fertilizantes + emissoes_pesticidas
                            + emissoes_transporte + emissoes_luc
      in \<lparr>emissoes_kg_co2 = emissoes_totais,
          detalhamento = [(''biomassa'', Num emissoes_biomassa),
                          (''fertilizantes'', Num emissoes_fertilizantes),
                          (''pesticidas'', Num emissoes_pesticidas),
                          (''transporte'', Num emissoes_transporte),
                          (''luc_dluc'', Num emissoes_luc)],
          emissoes_biogenicas_kg_co2 = None\<rparr>)"

subsection \<open>Industrial phase (\<^verbatim>\<open>FaseIndustrial.calcular_emissoes\<close>)\<close>

definition industrial_calcular_emissoes :: "fatores \<Rightarrow> dados \<Rightarrow> resultado_fase" where
  "industrial_calcular_emissoes fs d =
     (let energia_eletrica = get (energia_eletrica_kwh d) 0;
          energia_termica = get (energia_termica_mj d) 0;
          agua = get (agua_m3 d) 0;
          fator_eletricidade = get_valor fs ''fator_eletricidade_br'' 95.0;
          fator_energia_termica = get_valor fs ''fator_diesel'' 2680.0 / 38.0;
          fator_agua = get_valor fs ''fator_agua'' 0.36;
          emissoes_eletricidade = (energia_eletrica * fator_eletricidade) / 1000;
          emissoes_termica = (energia_termica * fator_energia_termica) / 1000;
          emissoes_agua = (agua * fator_agua) / 1000;
          emissoes_totais = emissoes_eletricidade + emissoes_termica + emissoes_agua
      in \<lparr>emissoes_kg_co2 = emissoes_totais,
          detalhamento = [(''energia_eletrica'', Num emissoes_eletricidade),
                          (''energia_termica'', Num emissoes_termica),
                          (''agua'', Num emissoes_agua)],
          emissoes_biogenicas_kg_co2 = None\<rparr>)"

subsection \<open>Distribution phase (\<^verbatim>\<open>FaseDistribuicao.calcular_emissoes\<close>)\<close>

text \<open>
  The dictionary \<^verbatim>\<open>fatores_modal\<close> has exactly three keys, and
  \<^verbatim>\<open>fatores_modal.get(modal, 62.0)\<close> answers the literal 62.0 for any other mode.
\<close>

definition fatores_modal :: "fatores \<Rightarrow> string \<rightharpoonup> rat" where
  "fatores_modal fs =
     [''rodoviario'' \<mapsto> get_valor fs ''fator_transporte_rodoviario'' 62.0,
      ''maritimo'' \<mapsto> get_valor fs ''fator_transporte_maritimo'' 8.5,
      ''ferroviario'' \<mapsto> get_valor fs ''fator_transporte_ferroviario'' 22.0]"

definition distribuicao_calcular_emissoes :: "fatores \<Rightarrow> dados \<Rightarrow> resultado_fase" where
  "distribuicao_calcular_emissoes fs d =
     (let modal = get (modal_transporte d) ''rodoviario'';
          distancia = get (distancia_km d) 0;
          biomassa_kg = get (quantidade_biomassa_kg d) 0;
          fator_transporte = get (fatores_modal fs modal) 62.0;
          emissoes_transporte = (fator_transporte * distancia * biomassa_kg / 1000) / 1000
      in \<lparr>emissoes_kg_co2 = emissoes_transporte,
          detalhamento = [(''transporte'', Num emissoes_transporte),
                          (''modal'', Str modal),
                          (''distancia_km'', Num distancia)],
          emissoes_biogenicas_kg_co2 = None\<rparr>)"

subsection \<open>Use phase (\<^verbatim>\<open>FaseUso.calcular_emissoes\<close>)\<close>

definition uso_calcular_emissoes :: "fatores \<Rightarrow> dados \<Rightarrow> resultado_fase" where
  "uso_calcular_emissoes fs d =
     (let biomassa_kg = get (quantidade_biomassa_kg d) 0;
          pci_v = get (pci d) 18.0;
          tipo = get (tipo_combustao d) ''caldeira'';
          fator_combustao = get_valor fs ''fator_combustao'' 0.0;
          emissoes_combustao = (biomassa_kg * pci_v * fator_combustao) / 1000;
          emissoes_biogenicas = biomassa_kg * 1.84
      in \<lparr>emissoes_kg_co2 = emissoes_combustao,
          detalhamento = [(''combustao'', Num emissoes_combustao),
                          (''tipo_combustao'', Str tipo),
                          (''energia_gerada_mj'', Num (biomassa_kg * pci_v))],
          emissoes_biogenicas_kg_co2 = Some emissoes_biogenicas\<rparr>)"

subsection \<open>Aggregator (\<^verbatim>\<open>CalculadoraBioCalc\<close>)\<close>

text \<open>The engine instance: the two tables loaded by the constructor.\<close>

record calculadora =
  fatores :: fatores
  biomassas :: biomassas

text \<open>
  The request. \<open>None\<close> is an absent key; a present \<^verbatim>\<open>fase_...\<close> key holds the
  caller's own dictionary, which the aggregator writes into. The four phase
  dictionaries are taken to be distinct objects.
\<close>

record dados_entrada =
  biomassa :: "string option"
  fase_agricola :: "dados option"
  fase_industrial :: "dados option"
  fase_distribuicao :: "dados option"
  fase_uso :: "dados option"

text \<open>One phase of \<^verbatim>\<open>resultados_por_fase\<close>: the phase result with its percentage.\<close>

record resumo_fase = resultado_fase +
  percentual :: rat

record resultados_por_fase_t =
  agricola :: resumo_fase
  industrial :: resumo_fase
  distribuicao :: resumo_fase
  uso :: resumo_fase

record comparacao =
  ci_fossil_referencia_g_co2_mj :: rat
  ci_biocombustivel_g_co2_mj :: rat
  reducao_g_co2_mj :: rat
  reducao_percentual :: rat

text \<open>The returned dictionary; its key \<^verbatim>\<open>biomassa\<close> is the field \<open>nome_biomassa\<close>.\<close>

record resultado =
  nome_biomassa :: string
  biomassa_info :: perfil_biomassa
  resultados_por_fase :: resultados_por_fase_t
  emissoes_totais_kg_co2 :: rat
  energia_total_mj :: rat
  intensidade_carbono_g_co2_mj :: rat
  neea :: rat
  comparacao_fossil :: comparacao

text \<open>
  The exceptions of the aggregator. Both \<^verbatim>\<open>ValueError\<close>s of the source are kept
  apart by their message: "Nome da biomassa nao fornecido" (the spec's
  MissingBiomassId) and "Biomassa ... nao encontrada" (the spec's UnknownBiomass).
  \<open>KeyError\<close> is what an index \<^verbatim>\<open>d[key]\<close> on an absent key raises.
\<close>

datatype erro =
    Nome_nao_fornecido
  | Biomassa_nao_encontrada string
  | KeyError string

definition get_biomassa_info :: "calculadora \<Rightarrow> string \<Rightarrow> erro + perfil_biomassa" where
  "get_biomassa_info self nome_b =
     (case biomassas self nome_b of
        None \<Rightarrow> Inl (Biomassa_nao_encontrada nome_b)
      | Some info \<Rightarrow> Inr info)"

text \<open>
  \<^verbatim>\<open>calcular_intensidade_carbono\<close>. The result is the returned dictionary or the
  exception, together with the engine and the request as they are after the call:
  the assignments \<^verbatim>\<open>dados_agricola[...] = ...\<close>, \<^verbatim>\<open>dados_distribuicao[...] = ...\<close> and
  \<^verbatim>\<open>dados_uso[...] = ...\<close> write into the caller's dictionary when the request holds
  one, and into a fresh \<^verbatim>\<open>{}\<close> otherwise. \<^verbatim>\<open>not nome_biomassa\<close> holds for \<^verbatim>\<open>None\<close>
  and for the empty string.
\<close>

definition calcular_intensidade_carbono ::
  "calculadora \<Rightarrow> dados_entrada \<Rightarrow> (erro + resultado) \<times> calculadora \<times> dados_entrada" where
  "calcular_intensidade_carbono self entrada =
     (case biomassa entrada of
        None \<Rightarrow> (Inl Nome_nao_fornecido, self, entrada)
      | Some nome_b \<Rightarrow>
          if nome_b = [] then (Inl Nome_nao_fornecido, self, entrada)
          else
            (case get_biomassa_info self nome_b of
               Inl e \<Rightarrow> (Inl e, self, entrada)
             | Inr info \<Rightarrow>
                (let dados_agricola = (get (fase_agricola entrada) vazio)
                       \<lparr>fator_biomassa_agricola := Some (info_fator_biomassa_agricola info)\<rparr>;
                     dados_industrial = get (fase_industrial entrada) vazio;
                     dados_distribuicao = (get (fase_distribuicao entrada) vazio)
                       \<lparr>quantidade_biomassa_kg :=
                          Some (get (quantidade_biomassa_kg dados_agricola) 0)\<rparr>;
                     dados_uso = (get (fase_uso entrada) vazio)
                       \<lparr>quantidade_biomassa_kg :=
                          Some (get (quantidade_biomassa_kg dados_agricola) 0),
                        pci := Some (info_pci info)\<rparr>;
                     entrada' = entrada
                       \<lparr>fase_agricola := map_option (\<lambda>_. dados_agricola) (fase_agricola entrada),
                        fase_distribuicao :=
                          map_option (\<lambda>_. dados_distribuicao) (fase_distribuicao entrada),
                        fase_uso := map_option (\<lambda>_. dados_uso) (fase_uso entrada)\<rparr>;
                     resultado_agricola = agricola_calcular_emissoes (fatores self) dados_agricola;
                     resultado_industrial =
                       industrial_calcular_emissoes (fatores self) dados_industrial;
                     resultado_distribuicao =
                       distribuicao_calcular_emissoes (fatores self) dados_distribuicao;
                     resultado_uso = uso_calcular_emissoes (fatores self) dados_uso;
                     emissoes_totais = emissoes_kg_co2 resultado_agricola
                                       + emissoes_kg_co2 resultado_industrial
                                       + emissoes_kg_co2 resultado_distribuicao
                                       + emissoes_kg_co2 resultado_uso
                 in case quantidade_biomassa_kg dados_uso of
                      None \<Rightarrow> (Inl (KeyError ''quantidade_biomassa_kg''), self, entrada')
                    | Some q \<Rightarrow>
                       (let energia = q * info_pci info;
                            intensidade_carbono =
                              (if energia > 0 then (emissoes_totais * 1000) / energia else 0);
                            ci_fossil = get_valor (fatores self) ''ci_fossil_referencia'' 85.0;
                            neea_v = ci_fossil - intensidade_carbono;
                            percentuais =
                              (if emissoes_totais > 0
                               then ((emissoes_kg_co2 resultado_agricola / emissoes_totais) * 100,
                                     (emissoes_kg_co2 resultado_industrial / emissoes_totais) * 100,
                                     (emissoes_kg_co2 resultado_distribuicao / emissoes_totais) * 100,
                                     (emissoes_kg_co2 resultado_uso / emissoes_totais) * 100)
                               else (0, 0, 0, 0));
                            reducao = (if ci_fossil > 0 then (neea_v / ci_fossil) * 100 else 0)
                        in (Inr \<lparr>nome_biomassa = nome_b,
                                 biomassa_info = info,
                                 resultados_por_fase =
                                   \<lparr>agricola =
                                      \<lparr>emissoes_kg_co2 = emissoes_kg_co2 resultado_agricola,
                                       detalhamento = detalhamento resultado_agricola,
                                       emissoes_biogenicas_kg_co2 = None,
                                       percentual = fst percentuais\<rparr>,
                                    industrial =
                                      \<lparr>emissoes_kg_co2 = emissoes_kg_co2 resultado_industrial,
                                       detalhamento = detalhamento resultado_industrial,
                                       emissoes_biogenicas_kg_co2 = None,
                                       percentual = fst (snd percentuais)\<rparr>,
                                    distribuicao =
                                      \<lparr>emissoes_kg_co2 = emissoes_kg_co2 resultado_distribuicao,
                                       detalhamento = detalhamento resultado_distribuicao,
                                       emissoes_biogenicas_kg_co2 = None,
                                       percentual = fst (snd (snd percentuais))\<rparr>,
                                    uso =
                                      \<lparr>emissoes_kg_co2 = emissoes_kg_co2 resultado_uso,
                                       detalhamento = detalhamento resultado_uso,
                                       emissoes_biogenicas_kg_co2 =
                                         Some (get (emissoes_biogenicas_kg_co2 resultado_uso) 0),
                                       percentual = snd (snd (snd percentuais))\<rparr>\<rparr>,
                                 emissoes_totais_kg_co2 = emissoes_totais,
                                 energia_total_mj = energia,
                                 intensidade_carbono_g_co2_mj = intensidade_carbono,
                                 neea = neea_v,
                                 comparacao_fossil =
                                   \<lparr>ci_fossil_referencia_g_co2_mj = ci_fossil,
                                    ci_biocombustivel_g_co2_mj = intensidade_carbono,
                                    reducao_g_co2_mj = neea_v,
                                    reducao_percentual = reducao\<rparr>\<rparr>,
                            self, entrada')))))"

text \<open>
  The pieces of \<open>calcular_intensidade_carbono\<close>, named so that its result can be
  stated: the three dictionaries it writes into (source lines 110 to 121), the request
  after the call, and the arithmetic on the four phase results (lines 129 to 209).
  Lemma \<open>calcular_aceito\<close> below shows that they compose to the definition above.
\<close>

definition dados_agricola_de :: "perfil_biomassa \<Rightarrow> dados_entrada \<Rightarrow> dados" where
  "dados_agricola_de info entrada =
     (get (fase_agricola entrada) vazio)
       \<lparr>fator_biomassa_agricola := Some (info_fator_biomassa_agricola info)\<rparr>"

definition dados_distribuicao_de :: "perfil_biomassa \<Rightarrow> dados_entrada \<Rightarrow> dados" where
  "dados_distribuicao_de info entrada =
     (get (fase_distribuicao entrada) vazio)
       \<lparr>quantidade_biomassa_kg :=
          Some (get (quantidade_biomassa_kg (dados_agricola_de info entrada)) 0)\<rparr>"

definition dados_uso_de :: "perfil_biomassa \<Rightarrow> dados_entrada \<Rightarrow> dados" where
  "dados_uso_de info entrada =
     (get (fase_uso entrada) vazio)
       \<lparr>quantidade_biomassa_kg :=
          Some (get (quantidade_biomassa_kg (dados_agricola_de info entrada)) 0),
        pci := Some (info_pci info)\<rparr>"

definition entrada_apos :: "perfil_biomassa \<Rightarrow> dados_entrada \<Rightarrow> dados_entrada" where
  "entrada_apos info entrada =
     entrada
       \<lparr>fase_agricola :=
          map_option (\<lambda>_. dados_agricola_de info entrada) (fase_agricola entrada),
        fase_distribuicao :=
          map_option (\<lambda>_. dados_distribuicao_de info entrada) (fase_distribuicao entrada),
        fase_uso := map_option (\<lambda>_. dados_uso_de info entrada) (fase_uso entrada)\<rparr>"

definition combinar ::
  "fatores \<Rightarrow> string \<Rightarrow> perfil_biomassa \<Rightarrow> resultado_fase \<Rightarrow> resultado_fase
     \<Rightarrow> resultado_fase \<Rightarrow> resultado_fase \<Rightarrow> rat \<Rightarrow> resultado" where
  "combinar fs nome_b info resultado_agricola resultado_industrial resultado_distribuicao
       resultado_uso q =
     (let emissoes_totais = emissoes_kg_co2 resultado_agricola
                            + emissoes_kg_co2 resultado_industrial
                            + emissoes_kg_co2 resultado_distribuicao
                            + emissoes_kg_co2 resultado_uso;
          energia = q * info_pci info;
          intensidade_carbono =
            (if energia > 0 then (emissoes_totais * 1000) / energia else 0);
          ci_fossil = get_valor fs ''ci_fossil_referencia'' 85.0;
          neea_v = ci_fossil - intensidade_carbono;
          percentuais =
            (if emissoes_totais > 0
             then ((emissoes_kg_co2 resultado_agricola / emissoes_totais) * 100,
                   (emissoes_kg_co2 resultado_industrial / emissoes_totais) * 100,
                   (emissoes_kg_co2 resultado_distribuicao / emissoes_totais) * 100,
                   (emissoes_kg_co2 resultado_uso / emissoes_totais) * 100)
             else (0, 0, 0, 0));
          reducao = (if ci_fossil > 0 then (neea_v / ci_fossil) * 100 else 0)
      in \<lparr>nome_biomassa = nome_b,
          biomassa_info = info,
          resultados_por_fase =
            \<lparr>agricola =
               \<lparr>emissoes_kg_co2 = emissoes_kg_co2 resultado_agricola,
                detalhamento = detalhamento resultado_agricola,
                emissoes_biogenicas_kg_co2 = None,
                percentual = fst percentuais\<rparr>,
             industrial =
               \<lparr>emissoes_kg_co2 = emissoes_kg_co2 resultado_industrial,
                detalhamento = detalhamento resultado_industrial,
                emissoes_biogenicas_kg_co2 = None,
                percentual = fst (snd percentuais)\<rparr>,
             distribuicao =
               \<lparr>emissoes_kg_co2 = emissoes_kg_co2 resultado_distribuicao,
                detalhamento = detalhamento resultado_distribuicao,
                emissoes_biogenicas_kg_co2 = None,
                percentual = fst (snd (snd percentuais))\<rparr>,
             uso =
               \<lparr>emissoes_kg_co2 = emissoes_kg_co2 resultado_uso,
                detalhamento = detalhamento resultado_uso,
                emissoes_biogenicas_kg_co2 =
                  Some (get (emissoes_biogenicas_kg_co2 resultado_uso) 0),
                percentual = snd (snd (snd percentuais))\<rparr>\<rparr>,
          emissoes_totais_kg_co2 = emissoes_totais,
          energia_total_mj = energia,
          intensidade_carbono_g_co2_mj = intensidade_carbono,
          neea = neea_v,
          comparacao_fossil =
            \<lparr>ci_fossil_referencia_g_co2_mj = ci_fossil,
             ci_biocombustivel_g_co2_mj = intensidade_carbono,
             reducao_g_co2_mj = neea_v,
             reducao_percentual = reducao\<rparr>\<rparr>)"

subsection \<open>Validator (\<^verbatim>\<open>Validador\<close>)\<close>

text \<open>
  Error messages are byte strings: a letter of the source outside ASCII is the two
  bytes of its UTF-8 encoding.
\<close>

definition a_agudo :: string where "a_agudo = [CHR 0xC3, CHR 0xA1]"
definition a_til :: string where "a_til = [CHR 0xC3, CHR 0xA3]"
definition c_cedilha :: string where "c_cedilha = [CHR 0xC3, CHR 0xA7]"
definition e_agudo :: string where "e_agudo = [CHR 0xC3, CHR 0xA9]"
definition i_agudo :: string where "i_agudo = [CHR 0xC3, CHR 0xAD]"
definition o_til :: string where "o_til = [CHR 0xC3, CHR 0xB5]"

text \<open>\<^verbatim>\<open>sep.join(xs)\<close>\<close>

fun join :: "string \<Rightarrow> string list \<Rightarrow> string" where
  "join sep [] = []"
| "join sep [x] = x"
| "join sep (x # y # ys) = x @ sep @ join sep (y # ys)"






definition tipos_validos :: "string list" where
  "tipos_validos = [''caldeira'', ''fornalha'', ''outro'']"

definition validar_fase_uso :: "dados \<Rightarrow> bool \<times> string list" where
  "validar_fase_uso d =
     (let erros = [];
          tipo_v = get (tipo_combustao d) ''caldeira'';
          erros = (if tipo_v \<notin> set tipos_validos
                   then erros @ [''Tipo de combust'' @ a_til @ ''o inv'' @ a_agudo
                                  @ ''lido. Op'' @ c_cedilha @ o_til @ ''es: ''
                                  @ join '', '' tipos_validos]
                   else erros)
      in (length erros = 0, erros))"




subsection \<open>Reference tables (\<^verbatim>\<open>src/extractor/excel_reader.py\<close>)\<close>

definition e_circunflexo :: string where "e_circunflexo = [CHR 0xC3, CHR 0xAA]"

text \<open>The literature factors of \<^verbatim>\<open>extrair_fatores_emissao\<close>.\<close>

definition fatores_literatura :: fatores where
  "fatores_literatura =
     [''fator_eletricidade_br'' \<mapsto>
        \<lparr>valor = Some 95.0, unidade = ''gCO2/kWh'', fonte = ''Grid BR m'' @ e_agudo @ ''dio''\<rparr>,
      ''fator_diesel'' \<mapsto>
        \<lparr>valor = Some 2680.0, unidade = ''gCO2/L'', fonte = ''IPCC''\<rparr>,
      ''fator_gasolina'' \<mapsto>
        \<lparr>valor = Some 2300.0, unidade = ''gCO2/L'', fonte = ''IPCC''\<rparr>,
      ''fator_gas_natural'' \<mapsto>
        \<lparr>valor = Some 2020.0, unidade = ''gCO2/m3'', fonte = ''IPCC''\<rparr>,
      ''fator_transporte_rodoviario'' \<mapsto>
        \<lparr>valor = Some 62.0, unidade = ''gCO2/tkm'', fonte = ''Ecoinvent''\<rparr>,
      ''fator_transporte_maritimo'' \<mapsto>
        \<lparr>valor = Some 8.5, unidade = ''gCO2/tkm'', fonte = ''Ecoinvent''\<rparr>,
      ''fator_transporte_ferroviario'' \<mapsto>
        \<lparr>valor = Some 22.0, unidade = ''gCO2/tkm'', fonte = ''Ecoinvent''\<rparr>,
      ''fator_fertilizante_n'' \<mapsto>
        \<lparr>valor = Some 6540.0, unidade = ''gCO2/kg'', fonte = ''IPCC''\<rparr>,
      ''fator_fertilizante_p'' \<mapsto>
        \<lparr>valor = Some 1200.0, unidade = ''gCO2/kg'', fonte = ''IPCC''\<rparr>,
      ''fator_fertilizante_k'' \<mapsto>
        \<lparr>valor = Some 630.0, unidade = ''gCO2/kg'', fonte = ''IPCC''\<rparr>,
      ''fator_pesticida'' \<mapsto>
        \<lparr>valor = Some 10000.0, unidade = ''gCO2/kg'', fonte = ''Ecoinvent m'' @ e_agudo @ ''dio''\<rparr>,
      ''fator_agua'' \<mapsto>
        \<lparr>valor = Some 0.36, unidade = ''gCO2/m3'', fonte = ''Ecoinvent BR''\<rparr>,
      ''fator_combustao'' \<mapsto>
        \<lparr>valor = Some 0.0, unidade = ''gCO2/MJ'', fonte = ''Biog'' @ e_circunflexo @ ''nico (CF=0)''\<rparr>,
      ''pci_pinus'' \<mapsto>
        \<lparr>valor = Some 18.5, unidade = ''MJ/kg'', fonte = ''Literatura''\<rparr>,
      ''pci_eucalipto'' \<mapsto>
        \<lparr>valor = Some 18.2, unidade = ''MJ/kg'', fonte = ''Literatura''\<rparr>,
      ''pci_amendoim'' \<mapsto>
        \<lparr>valor = Some 17.8, unidade = ''MJ/kg'', fonte = ''Literatura''\<rparr>,
      ''ci_fossil_referencia'' \<mapsto>
        \<lparr>valor = Some 85.0, unidade = ''gCO2/MJ'', fonte = ''RenovaCalc m'' @ e_agudo @ ''dia ponderada''\<rparr>]"

text \<open>The three presets of \<^verbatim>\<open>extrair_biomasses_preset\<close>.\<close>

definition perfil_amendoim :: perfil_biomassa where
  "perfil_amendoim =
     \<lparr>nome = ''Casca de Amendoim'',
      descricao = ''Res'' @ i_agudo @ ''duo agr'' @ i_agudo
                  @ ''cola do processamento de amendoim'',
      info_pci = 17.8, unidade_pci = ''MJ/kg'', densidade = 600,
      info_fator_biomassa_agricola = 120.0, tipo = ''residuo_agricola''\<rparr>"

definition perfil_pinus :: perfil_biomassa where
  "perfil_pinus =
     \<lparr>nome = ''Res'' @ i_agudo @ ''duos de Pinus'',
      descricao = ''Res'' @ i_agudo @ ''duos florestais de Pinus sp.'',
      info_pci = 18.5, unidade_pci = ''MJ/kg'', densidade = 550,
      info_fator_biomassa_agricola = 80.0, tipo = ''residuo_florestal''\<rparr>"

definition perfil_eucalipto :: perfil_biomassa where
  "perfil_eucalipto =
     \<lparr>nome = ''Res'' @ i_agudo @ ''duos de Eucalipto'',
      descricao = ''Res'' @ i_agudo @ ''duos florestais de Eucalyptus sp.'',
      info_pci = 18.2, unidade_pci = ''MJ/kg'', densidade = 580,
      info_fator_biomassa_agricola = 75.0, tipo = ''residuo_florestal''\<rparr>"

definition biomassas_preset :: biomassas where
  "biomassas_preset =
     [''amendoim'' \<mapsto> perfil_amendoim,
      ''pinus'' \<mapsto> perfil_pinus,
      ''eucalipto'' \<mapsto> perfil_eucalipto]"

definition calculadora_referencia :: calculadora where
  "calculadora_referencia = \<lparr>fatores = fatores_literatura, biomassas = biomassas_preset\<rparr>"

text \<open>The request of \<^verbatim>\<open>exemplo_uso\<close> in \<^verbatim>\<open>calculo.py\<close>.\<close>

definition dados_exemplo :: dados_entrada where
  "dados_exemplo =
     \<lparr>biomassa = Some ''pinus'',
      fase_agricola = Some (vazio\<lparr>quantidade_biomassa_kg := Some 1000,
                                   distancia_transporte_km := Some 50,
                                   uso_fertilizantes_kg := Some 10,
                                   uso_pesticidas_kg := Some 2,
                                   luc_dluc_opcional_kg_co2 := Some 0\<rparr>),
      fase_industrial = Some (vazio\<lparr>energia_eletrica_kwh := Some 150,
                                     energia_termica_mj := Some 500,
                                     agua_m3 := Some 5\<rparr>),
      fase_distribuicao = Some (vazio\<lparr>modal_transporte := Some ''rodoviario'',
                                       distancia_km := Some 200\<rparr>),
      fase_uso = Some (vazio\<lparr>tipo_combustao := Some ''caldeira''\<rparr>)\<rparr>"

text \<open>The request \<^verbatim>\<open>{'biomassa': 'pinus'}\<close>, with no phase dictionary at all.\<close>

definition dados_minimos :: dados_entrada where
  "dados_minimos =
     \<lparr>biomassa = Some ''pinus'', fase_agricola = None, fase_industrial = None,
      fase_distribuicao = None, fase_uso = None\<rparr>"


section \<open>Properties of the phase calculators\<close>

text \<open>
  C3. The agricultural calculator returns
  biomassKg * agriculturalFactor / 1000 + fertilizerKg * fertFactor / 1000
  + pesticideKg * pestFactor / 1000 + (roadFactor * distanceKm * biomassKg / 1000) / 1000
  + lucKgCO2, every absent input read as 0 (the agricultural factor as 100) and every
  factor looked up in the table with its default. With agricultural factor 50,
  1000 kg of biomass and every other input zero the result is 50 kg CO2, and 550 with
  an additional LUC/dLUC of 500, whatever the factor table holds.
\<close>

theorem agricola_emissoes_formula:
  "emissoes_kg_co2 (agricola_calcular_emissoes fs d) =
     get (quantidade_biomassa_kg d) 0 * get (fator_biomassa_agricola d) 100 / 1000
     + get (uso_fertilizantes_kg d) 0 * get_valor fs ''fator_fertilizante_n'' 6540 / 1000
     + get (uso_pesticidas_kg d) 0 * get_valor fs ''fator_pesticida'' 10000 / 1000
     + (get_valor fs ''fator_transporte_rodoviario'' 62 * get (distancia_transporte_km d) 0
          * get (quantidade_biomassa_kg d) 0 / 1000) / 1000
     + get (luc_dluc_opcional_kg_co2 d) 0
   \<and> emissoes_kg_co2 (agricola_calcular_emissoes fs
        (vazio\<lparr>quantidade_biomassa_kg := Some 1000, distancia_transporte_km := Some 0,
                uso_fertilizantes_kg := Some 0, uso_pesticidas_kg := Some 0,
                luc_dluc_opcional_kg_co2 := Some 0,
                fator_biomassa_agricola := Some 50.0\<rparr>)) = 50.0
   \<and> emissoes_kg_co2 (agricola_calcular_emissoes fs
        (vazio\<lparr>quantidade_biomassa_kg := Some 1000, distancia_transporte_km := Some 0,
                uso_fertilizantes_kg := Some 0, uso_pesticidas_kg := Some 0,
                luc_dluc_opcional_kg_co2 := Some 500,
                fator_biomassa_agricola := Some 50.0\<rparr>)) = 550.0"
  by (simp add: agricola_calcular_emissoes_def Let_def get_def vazio_def)

text \<open>
  C4. Under the default combustion factor (no \<^verbatim>\<open>fator_combustao\<close> in the table, or
  the reference value 0) the net emissions of the use phase are 0 whatever the biomass
  quantity and the PCI are, and the reported biogenic emissions are the biomass
  quantity times 1.84.
\<close>

theorem uso_emissoes_liquidas_zero:
  assumes "get_valor fs ''fator_combustao'' 0 = 0"
  shows "emissoes_kg_co2 (uso_calcular_emissoes fs d) = 0
       \<and> emissoes_biogenicas_kg_co2 (uso_calcular_emissoes fs d)
           = Some (get (quantidade_biomassa_kg d) 0 * 1.84)"
  using assms by (simp add: uso_calcular_emissoes_def Let_def)

text \<open>With an empty factor table, 1000 kg and PCI 18.5: net 0, biogenic 1840.\<close>

theorem uso_emissoes_liquidas_zero_witness:
  "get_valor Map.empty ''fator_combustao'' 0 = 0
   \<and> emissoes_kg_co2 (uso_calcular_emissoes Map.empty
        (vazio\<lparr>quantidade_biomassa_kg := Some 1000, pci := Some 18.5\<rparr>)) = 0
   \<and> emissoes_biogenicas_kg_co2 (uso_calcular_emissoes Map.empty
        (vazio\<lparr>quantidade_biomassa_kg := Some 1000, pci := Some 18.5\<rparr>)) = Some 1840"
proof -
  have h: "get_valor Map.empty ''fator_combustao'' 0 = 0"
    by (simp add: get_valor_def)
  show ?thesis
    using h uso_emissoes_liquidas_zero [OF h,
        of "vazio\<lparr>quantidade_biomassa_kg := Some 1000, pci := Some 18.5\<rparr>"]
    by (simp add: get_def vazio_def)
qed

text \<open>The emissions of the distribution phase, as one formula.\<close>

lemma distribuicao_emissoes:
  "emissoes_kg_co2 (distribuicao_calcular_emissoes fs d) =
     (get (fatores_modal fs (get (modal_transporte d) ''rodoviario'')) 62
        * get (distancia_km d) 0 * get (quantidade_biomassa_kg d) 0 / 1000) / 1000"
  by (simp add: distribuicao_calcular_emissoes_def Let_def)




text \<open>
  C10. The distribution calculator has no failing branch. An absent mode is computed
  as \<^verbatim>\<open>rodoviario\<close>; a mode outside rodoviario, maritimo and ferroviario is computed
  with the literal factor 62.0, whatever the road factor of the table is.
\<close>

theorem distribuicao_modal_desconhecido:
  "(modal_transporte d = None \<longrightarrow>
      distribuicao_calcular_emissoes fs d
        = distribuicao_calcular_emissoes fs (d\<lparr>modal_transporte := Some ''rodoviario''\<rparr>))
   \<and> (\<forall>m. modal_transporte d = Some m
            \<and> m \<notin> {''rodoviario'', ''maritimo'', ''ferroviario''} \<longrightarrow>
          emissoes_kg_co2 (distribuicao_calcular_emissoes fs d)
            = (62.0 * get (distancia_km d) 0 * get (quantidade_biomassa_kg d) 0 / 1000) / 1000)"
  by (auto simp add: distribuicao_calcular_emissoes_def Let_def fatores_modal_def get_def)

text \<open>
  With a table whose road factor is 100, 100 km and 1000 kg: the unknown mode
  \<^verbatim>\<open>aereo\<close> gives 6.2 kg CO2 (factor 62), the road mode gives 10, and so does an
  absent mode.
\<close>

theorem distribuicao_modal_desconhecido_witness:
  "modal_transporte (vazio\<lparr>modal_transporte := Some ''aereo'', distancia_km := Some 100,
                            quantidade_biomassa_kg := Some 1000\<rparr>) = Some ''aereo''
   \<and> ''aereo'' \<notin> {''rodoviario'', ''maritimo'', ''ferroviario''}
   \<and> emissoes_kg_co2 (distribuicao_calcular_emissoes
        [''fator_transporte_rodoviario'' \<mapsto>
           \<lparr>valor = Some 100, unidade = ''gCO2/tkm'', fonte = ''Ecoinvent''\<rparr>]
        (vazio\<lparr>modal_transporte := Some ''aereo'', distancia_km := Some 100,
                quantidade_biomassa_kg := Some 1000\<rparr>)) = 6.2
   \<and> emissoes_kg_co2 (distribuicao_calcular_emissoes
        [''fator_transporte_rodoviario'' \<mapsto>
           \<lparr>valor = Some 100, unidade = ''gCO2/tkm'', fonte = ''Ecoinvent''\<rparr>]
        (vazio\<lparr>modal_transporte := Some ''rodoviario'', distancia_km := Some 100,
                quantidade_biomassa_kg := Some 1000\<rparr>)) = 10
   \<and> modal_transporte (vazio\<lparr>distancia_km := Some 100,
                              quantidade_biomassa_kg := Some 1000\<rparr>) = None
   \<and> emissoes_kg_co2 (distribuicao_calcular_emissoes
        [''fator_transporte_rodoviario'' \<mapsto>
           \<lparr>valor = Some 100, unidade = ''gCO2/tkm'', fonte = ''Ecoinvent''\<rparr>]
        (vazio\<lparr>distancia_km := Some 100, quantidade_biomassa_kg := Some 1000\<rparr>)) = 10"
proof -
  let ?fs = "[''fator_transporte_rodoviario'' \<mapsto>
               \<lparr>valor = Some 100, unidade = ''gCO2/tkm'', fonte = ''Ecoinvent''\<rparr>]"
  let ?a = "vazio\<lparr>modal_transporte := Some ''aereo'', distancia_km := Some 100,
                   quantidade_biomassa_kg := Some 1000\<rparr>"
  let ?n = "vazio\<lparr>distancia_km := Some 100, quantidade_biomassa_kg := Some 1000\<rparr>"
  have m: "modal_transporte ?a = Some ''aereo''"
    by simp
  have nm: "modal_transporte ?n = None"
    by (simp add: vazio_def)
  have fora: "''aereo'' \<notin> {''rodoviario'', ''maritimo'', ''ferroviario''}"
    by simp
  have rod: "emissoes_kg_co2 (distribuicao_calcular_emissoes ?fs
               (vazio\<lparr>modal_transporte := Some ''rodoviario'', distancia_km := Some 100,
                       quantidade_biomassa_kg := Some 1000\<rparr>)) = 10"
    by (simp add: distribuicao_emissoes fatores_modal_def get_valor_def get_def vazio_def)
  from distribuicao_modal_desconhecido [of ?a ?fs] m fora
  have aereo: "emissoes_kg_co2 (distribuicao_calcular_emissoes ?fs ?a) = 6.2"
    by (simp add: get_def vazio_def)
  from distribuicao_modal_desconhecido [of ?n ?fs] nm
  have "distribuicao_calcular_emissoes ?fs ?n
          = distribuicao_calcular_emissoes ?fs (?n\<lparr>modal_transporte := Some ''rodoviario''\<rparr>)"
    by blast
  with rod have ausente: "emissoes_kg_co2 (distribuicao_calcular_emissoes ?fs ?n) = 10"
    by (simp add: vazio_def)
  from m fora aereo rod nm ausente show ?thesis
    by blast
qed

section \<open>Properties of the aggregator\<close>

text \<open>
  The definition of \<open>calcular_intensidade_carbono\<close> in its three cases. On an accepted
  request the index \<^verbatim>\<open>dados_uso['quantidade_biomassa_kg']\<close> finds the key written a
  few lines before, so \<open>KeyError\<close> is not raised.
\<close>

lemma quantidade_apos_escrita:
  "quantidade_biomassa_kg (d\<lparr>quantidade_biomassa_kg := Some a, pci := b\<rparr>) = Some a"
  by simp

lemma calcular_aceito:
  assumes "biomassa entrada = Some n" "n \<noteq> []" "biomassas self n = Some info"
  shows "calcular_intensidade_carbono self entrada =
     (Inr (combinar (fatores self) n info
             (agricola_calcular_emissoes (fatores self) (dados_agricola_de info entrada))
             (industrial_calcular_emissoes (fatores self) (get (fase_industrial entrada) vazio))
             (distribuicao_calcular_emissoes (fatores self) (dados_distribuicao_de info entrada))
             (uso_calcular_emissoes (fatores self) (dados_uso_de info entrada))
             (get (quantidade_biomassa_kg (dados_agricola_de info entrada)) 0)),
      self, entrada_apos info entrada)"
  unfolding calcular_intensidade_carbono_def get_biomassa_info_def combinar_def entrada_apos_def
    dados_uso_de_def dados_distribuicao_de_def dados_agricola_de_def
  apply (simp only: assms option.case if_False sum.case)
  apply (simp only: Let_def quantidade_apos_escrita option.case)
  done

lemma calcular_sem_nome:
  assumes "biomassa entrada = None \<or> biomassa entrada = Some []"
  shows "calcular_intensidade_carbono self entrada = (Inl Nome_nao_fornecido, self, entrada)"
  using assms unfolding calcular_intensidade_carbono_def
  by (auto simp only: option.case if_True simp_thms)

lemma calcular_desconhecida:
  assumes "biomassa entrada = Some n" "n \<noteq> []" "biomassas self n = None"
  shows "calcular_intensidade_carbono self entrada
           = (Inl (Biomassa_nao_encontrada n), self, entrada)"
  unfolding calcular_intensidade_carbono_def get_biomassa_info_def
  by (simp only: assms option.case if_False sum.case)

lemma combinar_total:
  "emissoes_totais_kg_co2 (combinar fs n info ra ri rd ru q) =
     emissoes_kg_co2 ra + emissoes_kg_co2 ri + emissoes_kg_co2 rd + emissoes_kg_co2 ru"
  by (simp add: combinar_def Let_def)

lemma combinar_fases:
  "emissoes_kg_co2 (agricola (resultados_por_fase (combinar fs n info ra ri rd ru q)))
     = emissoes_kg_co2 ra"
  "emissoes_kg_co2 (industrial (resultados_por_fase (combinar fs n info ra ri rd ru q)))
     = emissoes_kg_co2 ri"
  "emissoes_kg_co2 (distribuicao (resultados_por_fase (combinar fs n info ra ri rd ru q)))
     = emissoes_kg_co2 rd"
  "emissoes_kg_co2 (uso (resultados_por_fase (combinar fs n info ra ri rd ru q)))
     = emissoes_kg_co2 ru"
  "emissoes_biogenicas_kg_co2 (uso (resultados_por_fase (combinar fs n info ra ri rd ru q)))
     = Some (get (emissoes_biogenicas_kg_co2 ru) 0)"
  by (simp_all add: combinar_def Let_def)


lemma combinar_indicadores:
  "energia_total_mj (combinar fs n info ra ri rd ru q) = q * info_pci info"
  "intensidade_carbono_g_co2_mj (combinar fs n info ra ri rd ru q) =
     (if q * info_pci info > 0
      then (emissoes_kg_co2 ra + emissoes_kg_co2 ri + emissoes_kg_co2 rd + emissoes_kg_co2 ru)
           * 1000 / (q * info_pci info)
      else 0)"
  "ci_fossil_referencia_g_co2_mj (comparacao_fossil (combinar fs n info ra ri rd ru q))
     = get_valor fs ''ci_fossil_referencia'' 85"
  "neea (combinar fs n info ra ri rd ru q) =
     get_valor fs ''ci_fossil_referencia'' 85
       - intensidade_carbono_g_co2_mj (combinar fs n info ra ri rd ru q)"
  "reducao_percentual (comparacao_fossil (combinar fs n info ra ri rd ru q)) =
     (if get_valor fs ''ci_fossil_referencia'' 85 > 0
      then neea (combinar fs n info ra ri rd ru q) / get_valor fs ''ci_fossil_referencia'' 85
           * 100
      else 0)"
  "biomassa_info (combinar fs n info ra ri rd ru q) = info"
  "nome_biomassa (combinar fs n info ra ri rd ru q) = n"
  by (simp_all add: combinar_def Let_def)

lemma get_simps:
  "get None x = x"
  "get (Some v) x = v"
  by (simp_all add: get_def)

lemma uso_de_quantidade:
  "get (quantidade_biomassa_kg (dados_uso_de info entrada)) 0
     = get (quantidade_biomassa_kg (dados_agricola_de info entrada)) 0"
  "get (pci (dados_uso_de info entrada)) x = info_pci info"
  by (simp_all add: dados_uso_de_def get_def)

lemma uso_emissoes:
  "emissoes_kg_co2 (uso_calcular_emissoes fs d) =
     get (quantidade_biomassa_kg d) 0 * get (pci d) 18 * get_valor fs ''fator_combustao'' 0 / 1000"
  "emissoes_biogenicas_kg_co2 (uso_calcular_emissoes fs d) =
     Some (get (quantidade_biomassa_kg d) 0 * 1.84)"
  by (simp_all add: uso_calcular_emissoes_def Let_def)

text \<open>
  C1. For every accepted request (biomass id present, not empty, and in the catalog)
  the aggregator returns a result whose total emissions are the sum of the emissions
  of the four phases, each being what its phase calculator returns on the prepared
  input. The use-phase summand is the net value quantity * PCI * combustion factor
  / 1000, which is 0 under the reference combustion factor, so that the total is then
  the sum of the other three; the biogenic emissions (quantity * 1.84) are reported
  in the use phase and are no summand of the total.
\<close>

theorem total_soma_fases:
  assumes "biomassa entrada = Some n" and "n \<noteq> []" and "biomassas self n = Some info"
  shows "\<exists>r. fst (calcular_intensidade_carbono self entrada) = Inr r
     \<and> emissoes_totais_kg_co2 r =
         emissoes_kg_co2 (agricola (resultados_por_fase r))
         + emissoes_kg_co2 (industrial (resultados_por_fase r))
         + emissoes_kg_co2 (distribuicao (resultados_por_fase r))
         + emissoes_kg_co2 (uso (resultados_por_fase r))
     \<and> emissoes_kg_co2 (agricola (resultados_por_fase r)) =
         emissoes_kg_co2 (agricola_calcular_emissoes (fatores self)
                            (dados_agricola_de info entrada))
     \<and> emissoes_kg_co2 (industrial (resultados_por_fase r)) =
         emissoes_kg_co2 (industrial_calcular_emissoes (fatores self)
                            (get (fase_industrial entrada) vazio))
     \<and> emissoes_kg_co2 (distribuicao (resultados_por_fase r)) =
         emissoes_kg_co2 (distribuicao_calcular_emissoes (fatores self)
                            (dados_distribuicao_de info entrada))
     \<and> emissoes_kg_co2 (uso (resultados_por_fase r)) =
         get (quantidade_biomassa_kg (get (fase_agricola entrada) vazio)) 0 * info_pci info
           * get_valor (fatores self) ''fator_combustao'' 0 / 1000
     \<and> emissoes_biogenicas_kg_co2 (uso (resultados_por_fase r)) =
         Some (get (quantidade_biomassa_kg (get (fase_agricola entrada) vazio)) 0 * 1.84)
     \<and> (get_valor (fatores self) ''fator_combustao'' 0 = 0 \<longrightarrow>
          emissoes_kg_co2 (uso (resultados_por_fase r)) = 0
          \<and> emissoes_totais_kg_co2 r =
              emissoes_kg_co2 (agricola (resultados_por_fase r))
              + emissoes_kg_co2 (industrial (resultados_por_fase r))
              + emissoes_kg_co2 (distribuicao (resultados_por_fase r)))"
proof -
  have q: "get (quantidade_biomassa_kg (dados_agricola_de info entrada)) 0
             = get (quantidade_biomassa_kg (get (fase_agricola entrada) vazio)) 0"
    by (simp add: dados_agricola_de_def)
  show ?thesis
    by (simp add: calcular_aceito [OF assms] combinar_total combinar_fases uso_emissoes
        uso_de_quantidade q get_simps)
qed

text \<open>
  C2. For every accepted request the carbon intensity is total emissions * 1000 /
  total energy when the total energy is positive and 0 otherwise; NEEA is the fossil
  reference intensity minus the carbon intensity; the reduction percentage is
  NEEA / reference * 100 when the reference is positive and 0 when it is not.
  The total energy is quantity * PCI and the reference is the table's
  \<^verbatim>\<open>ci_fossil_referencia\<close>, 85 by default.
\<close>

theorem intensidade_neea_reducao:
  assumes "biomassa entrada = Some n" and "n \<noteq> []" and "biomassas self n = Some info"
  shows "\<exists>r. fst (calcular_intensidade_carbono self entrada) = Inr r
     \<and> intensidade_carbono_g_co2_mj r =
         (if energia_total_mj r > 0
          then (emissoes_totais_kg_co2 r * 1000) / energia_total_mj r else 0)
     \<and> neea r = ci_fossil_referencia_g_co2_mj (comparacao_fossil r)
                  - intensidade_carbono_g_co2_mj r
     \<and> reducao_percentual (comparacao_fossil r) =
         (if ci_fossil_referencia_g_co2_mj (comparacao_fossil r) > 0
          then neea r / ci_fossil_referencia_g_co2_mj (comparacao_fossil r) * 100 else 0)
     \<and> (ci_fossil_referencia_g_co2_mj (comparacao_fossil r) \<le> 0 \<longrightarrow>
          reducao_percentual (comparacao_fossil r) = 0)
     \<and> energia_total_mj r =
          get (quantidade_biomassa_kg (get (fase_agricola entrada) vazio)) 0 * info_pci info
     \<and> ci_fossil_referencia_g_co2_mj (comparacao_fossil r) =
          get_valor (fatores self) ''ci_fossil_referencia'' 85"
proof -
  have q: "get (quantidade_biomassa_kg (dados_agricola_de info entrada)) 0
             = get (quantidade_biomassa_kg (get (fase_agricola entrada) vazio)) 0"
    by (simp add: dados_agricola_de_def)
  show ?thesis
    by (simp add: calcular_aceito [OF assms] combinar_total combinar_indicadores q)
qed



section \<open>The example request on the reference tables\<close>

text \<open>
  The request of \<^verbatim>\<open>exemplo_uso\<close> is accepted by the reference engine; its four phase
  emissions are 168.5, 49.51..., 12.4 and 0 kg CO2.
\<close>

lemma exemplo_aceito:
  "biomassa dados_exemplo = Some ''pinus''"
  "''pinus'' \<noteq> []"
  "biomassas calculadora_referencia ''pinus'' = Some perfil_pinus"
  by (simp_all add: dados_exemplo_def calculadora_referencia_def biomassas_preset_def)

lemma fatores_referencia_valores:
  "get_valor (fatores calculadora_referencia) ''fator_fertilizante_n'' x = 6540"
  "get_valor (fatores calculadora_referencia) ''fator_pesticida'' x = 10000"
  "get_valor (fatores calculadora_referencia) ''fator_transporte_rodoviario'' x = 62"
  "get_valor (fatores calculadora_referencia) ''fator_transporte_maritimo'' x = 8.5"
  "get_valor (fatores calculadora_referencia) ''fator_transporte_ferroviario'' x = 22"
  "get_valor (fatores calculadora_referencia) ''fator_eletricidade_br'' x = 95"
  "get_valor (fatores calculadora_referencia) ''fator_diesel'' x = 2680"
  "get_valor (fatores calculadora_referencia) ''fator_agua'' x = 0.36"
  "get_valor (fatores calculadora_referencia) ''fator_combustao'' x = 0"
  "get_valor (fatores calculadora_referencia) ''ci_fossil_referencia'' x = 85"
  by (simp_all add: calculadora_referencia_def fatores_literatura_def get_valor_def)

lemma exemplo_fases:
  "emissoes_kg_co2 (agricola_calcular_emissoes (fatores calculadora_referencia)
       (dados_agricola_de perfil_pinus dados_exemplo)) = 337 / 2"
  "emissoes_kg_co2 (industrial_calcular_emissoes (fatores calculadora_referencia)
       (get (fase_industrial dados_exemplo) vazio)) = 4703921 / 95000"
  "emissoes_kg_co2 (distribuicao_calcular_emissoes (fatores calculadora_referencia)
       (dados_distribuicao_de perfil_pinus dados_exemplo)) = 62 / 5"
  "emissoes_kg_co2 (uso_calcular_emissoes (fatores calculadora_referencia)
       (dados_uso_de perfil_pinus dados_exemplo)) = 0"
     apply (simp add: agricola_calcular_emissoes_def Let_def fatores_referencia_valores
      dados_agricola_de_def dados_exemplo_def get_simps vazio_def perfil_pinus_def)
    apply (simp add: industrial_calcular_emissoes_def Let_def fatores_referencia_valores
      dados_exemplo_def get_simps vazio_def)
   apply (simp add: distribuicao_emissoes fatores_modal_def fatores_referencia_valores
      dados_distribuicao_de_def dados_agricola_de_def dados_exemplo_def get_simps vazio_def)
  apply (simp add: uso_emissoes fatores_referencia_valores)
  done

lemma exemplo_quantidade:
  "get (quantidade_biomassa_kg (get (fase_agricola dados_exemplo) vazio)) 0 = 1000"
  "info_pci perfil_pinus = 18.5"
  by (simp_all add: dados_exemplo_def get_simps perfil_pinus_def)


lemma minimos_quantidade:
  "get (quantidade_biomassa_kg (get (fase_agricola dados_minimos) vazio)) 0 = 0"
  by (simp add: dados_minimos_def get_simps vazio_def)



text \<open>C1 on the example request: total 168.5 + 4703921/95000 + 12.4, biogenic 1840.\<close>

theorem total_soma_fases_witness:
  "biomassa dados_exemplo = Some ''pinus'' \<and> ''pinus'' \<noteq> []
   \<and> biomassas calculadora_referencia ''pinus'' = Some perfil_pinus
   \<and> get_valor (fatores calculadora_referencia) ''fator_combustao'' 0 = 0
   \<and> (\<exists>r. fst (calcular_intensidade_carbono calculadora_referencia dados_exemplo) = Inr r
          \<and> emissoes_totais_kg_co2 r = 337 / 2 + 4703921 / 95000 + 62 / 5
          \<and> emissoes_kg_co2 (uso (resultados_por_fase r)) = 0
          \<and> emissoes_biogenicas_kg_co2 (uso (resultados_por_fase r)) = Some 1840)"
proof -
  from total_soma_fases [OF exemplo_aceito]
  obtain r where r: "fst (calcular_intensidade_carbono calculadora_referencia dados_exemplo) = Inr r"
    and tot: "emissoes_totais_kg_co2 r =
         emissoes_kg_co2 (agricola (resultados_por_fase r))
         + emissoes_kg_co2 (industrial (resultados_por_fase r))
         + emissoes_kg_co2 (distribuicao (resultados_por_fase r))
         + emissoes_kg_co2 (uso (resultados_por_fase r))"
    and ag: "emissoes_kg_co2 (agricola (resultados_por_fase r)) =
         emissoes_kg_co2 (agricola_calcular_emissoes (fatores calculadora_referencia)
                            (dados_agricola_de perfil_pinus dados_exemplo))"
    and ind: "emissoes_kg_co2 (industrial (resultados_por_fase r)) =
         emissoes_kg_co2 (industrial_calcular_emissoes (fatores calculadora_referencia)
                            (get (fase_industrial dados_exemplo) vazio))"
    and dis: "emissoes_kg_co2 (distribuicao (resultados_por_fase r)) =
         emissoes_kg_co2 (distribuicao_calcular_emissoes (fatores calculadora_referencia)
                            (dados_distribuicao_de perfil_pinus dados_exemplo))"
    and us: "emissoes_kg_co2 (uso (resultados_por_fase r)) =
         get (quantidade_biomassa_kg (get (fase_agricola dados_exemplo) vazio)) 0
           * info_pci perfil_pinus
           * get_valor (fatores calculadora_referencia) ''fator_combustao'' 0 / 1000"
    and bio: "emissoes_biogenicas_kg_co2 (uso (resultados_por_fase r)) =
         Some (get (quantidade_biomassa_kg (get (fase_agricola dados_exemplo) vazio)) 0 * 1.84)"
    by blast
  have us0: "emissoes_kg_co2 (uso (resultados_por_fase r)) = 0"
    using us by (simp add: fatores_referencia_valores)
  have tot': "emissoes_totais_kg_co2 r = 337 / 2 + 4703921 / 95000 + 62 / 5"
    by (simp only: tot ag ind dis us0 exemplo_fases add_0_right)
  have bio': "emissoes_biogenicas_kg_co2 (uso (resultados_por_fase r)) = Some 1840"
    using bio by (simp add: exemplo_quantidade)
  from r tot' us0 bio' exemplo_aceito fatores_referencia_valores(9) show ?thesis
    by blast
qed

text \<open>
  C2 on the example request (energy 18500 MJ against the reference 85), and on the
  request with no phase dictionary with a table whose reference is 0 (energy 0,
  intensity 0, reduction 0).
\<close>

theorem intensidade_neea_reducao_witness:
  "biomassa dados_exemplo = Some ''pinus'' \<and> ''pinus'' \<noteq> []
   \<and> biomassas calculadora_referencia ''pinus'' = Some perfil_pinus
   \<and> (\<exists>r. fst (calcular_intensidade_carbono calculadora_referencia dados_exemplo) = Inr r
          \<and> energia_total_mj r = 18500
          \<and> intensidade_carbono_g_co2_mj r = emissoes_totais_kg_co2 r * 1000 / 18500
          \<and> neea r = 85 - intensidade_carbono_g_co2_mj r
          \<and> reducao_percentual (comparacao_fossil r) = neea r / 85 * 100)
   \<and> biomassa dados_minimos = Some ''pinus''
   \<and> biomassas \<lparr>fatores = [''ci_fossil_referencia'' \<mapsto>
                               \<lparr>valor = Some 0, unidade = ''gCO2/MJ'', fonte = ''teste''\<rparr>],
                  biomassas = biomassas_preset\<rparr> ''pinus'' = Some perfil_pinus
   \<and> (\<exists>r. fst (calcular_intensidade_carbono
                   \<lparr>fatores = [''ci_fossil_referencia'' \<mapsto>
                                 \<lparr>valor = Some 0, unidade = ''gCO2/MJ'', fonte = ''teste''\<rparr>],
                    biomassas = biomassas_preset\<rparr> dados_minimos) = Inr r
          \<and> energia_total_mj r = 0
          \<and> intensidade_carbono_g_co2_mj r = 0
          \<and> ci_fossil_referencia_g_co2_mj (comparacao_fossil r) = 0
          \<and> neea r = 0
          \<and> reducao_percentual (comparacao_fossil r) = 0)"
proof -
  let ?c0 = "\<lparr>fatores = [''ci_fossil_referencia'' \<mapsto>
                           \<lparr>valor = Some 0, unidade = ''gCO2/MJ'', fonte = ''teste''\<rparr>],
               biomassas = biomassas_preset\<rparr>"
  from intensidade_neea_reducao [OF exemplo_aceito]
  obtain r where r: "fst (calcular_intensidade_carbono calculadora_referencia dados_exemplo) = Inr r"
    and ci: "intensidade_carbono_g_co2_mj r =
         (if energia_total_mj r > 0
          then (emissoes_totais_kg_co2 r * 1000) / energia_total_mj r else 0)"
    and ne: "neea r = ci_fossil_referencia_g_co2_mj (comparacao_fossil r)
                  - intensidade_carbono_g_co2_mj r"
    and red: "reducao_percentual (comparacao_fossil r) =
         (if ci_fossil_referencia_g_co2_mj (comparacao_fossil r) > 0
          then neea r / ci_fossil_referencia_g_co2_mj (comparacao_fossil r) * 100 else 0)"
    and en: "energia_total_mj r =
          get (quantidade_biomassa_kg (get (fase_agricola dados_exemplo) vazio)) 0
            * info_pci perfil_pinus"
    and ref: "ci_fossil_referencia_g_co2_mj (comparacao_fossil r) =
          get_valor (fatores calculadora_referencia) ''ci_fossil_referencia'' 85"
    by blast
  have en': "energia_total_mj r = 18500"
    using en by (simp add: exemplo_quantidade)
  have ref': "ci_fossil_referencia_g_co2_mj (comparacao_fossil r) = 85"
    using ref by (simp add: fatores_referencia_valores)
  have ci': "intensidade_carbono_g_co2_mj r = emissoes_totais_kg_co2 r * 1000 / 18500"
    using ci by (simp add: en')
  have ne': "neea r = 85 - intensidade_carbono_g_co2_mj r"
    using ne by (simp add: ref')
  have red': "reducao_percentual (comparacao_fossil r) = neea r / 85 * 100"
    using red by (simp add: ref')
  have m1: "biomassa dados_minimos = Some ''pinus''"
    and m3: "biomassas ?c0 ''pinus'' = Some perfil_pinus"
    by (simp_all add: dados_minimos_def biomassas_preset_def)
  from intensidade_neea_reducao [OF m1 exemplo_aceito(2) m3]
  obtain z where z: "fst (calcular_intensidade_carbono ?c0 dados_minimos) = Inr z"
    and zci: "intensidade_carbono_g_co2_mj z =
         (if energia_total_mj z > 0
          then (emissoes_totais_kg_co2 z * 1000) / energia_total_mj z else 0)"
    and zne: "neea z = ci_fossil_referencia_g_co2_mj (comparacao_fossil z)
                  - intensidade_carbono_g_co2_mj z"
    and zred: "ci_fossil_referencia_g_co2_mj (comparacao_fossil z) \<le> 0 \<longrightarrow>
          reducao_percentual (comparacao_fossil z) = 0"
    and zen: "energia_total_mj z =
          get (quantidade_biomassa_kg (get (fase_agricola dados_minimos) vazio)) 0
            * info_pci perfil_pinus"
    and zref: "ci_fossil_referencia_g_co2_mj (comparacao_fossil z) =
          get_valor (fatores ?c0) ''ci_fossil_referencia'' 85"
    by blast
  have zen': "energia_total_mj z = 0"
    using zen by (simp add: minimos_quantidade)
  have zref': "ci_fossil_referencia_g_co2_mj (comparacao_fossil z) = 0"
    using zref by (simp add: get_valor_def)
  have zci': "intensidade_carbono_g_co2_mj z = 0"
    using zci by (simp add: zen')
  have zne': "neea z = 0"
    using zne by (simp add: zref' zci')
  have zred': "reducao_percentual (comparacao_fossil z) = 0"
    using zred by (simp add: zref')
  from r en' ci' ne' red' exemplo_aceito m1 m3 z zen' zci' zref' zne' zred' show ?thesis
    by blast
qed


section \<open>Failures and effects of the aggregator\<close>

text \<open>A call that raises has written nothing: both raises come before the first write.\<close>

lemma calcular_erro_sem_efeito:
  assumes "fst (calcular_intensidade_carbono self entrada) = Inl e"
  shows "snd (calcular_intensidade_carbono self entrada) = (self, entrada)"
proof (cases "biomassa entrada")
  case None
  then show ?thesis by (simp add: calcular_sem_nome)
next
  case (Some n)
  show ?thesis
  proof (cases "n = []")
    case True
    with Some show ?thesis by (simp add: calcular_sem_nome)
  next
    case False
    show ?thesis
    proof (cases "biomassas self n")
      case None
      with Some False show ?thesis by (simp add: calcular_desconhecida)
    next
      case (Some info)
      with \<open>biomassa entrada = Some n\<close> False assms show ?thesis
        by (simp add: calcular_aceito)
    qed
  qed
qed



text \<open>The agricultural dictionary of the example request before and after the call.\<close>

lemma exemplo_apos:
  "fator_biomassa_agricola (the (fase_agricola (entrada_apos perfil_pinus dados_exemplo)))
     = Some 80"
  "fator_biomassa_agricola (the (fase_agricola dados_exemplo)) = None"
  by (simp_all add: entrada_apos_def dados_agricola_de_def dados_exemplo_def perfil_pinus_def
      get_simps vazio_def)

text \<open>
  C9, as stated, fails: after the call on the example request the caller's request is
  not what it was, since its agricultural dictionary has gained the key
  \<^verbatim>\<open>fator_biomassa_agricola\<close>.
\<close>

theorem calcular_altera_entrada_counterexample:
  "snd (snd (calcular_intensidade_carbono calculadora_referencia dados_exemplo))
     \<noteq> dados_exemplo"
proof
  assume "snd (snd (calcular_intensidade_carbono calculadora_referencia dados_exemplo))
            = dados_exemplo"
  then have "entrada_apos perfil_pinus dados_exemplo = dados_exemplo"
    by (simp add: calcular_aceito [OF exemplo_aceito])
  then have "fator_biomassa_agricola (the (fase_agricola (entrada_apos perfil_pinus dados_exemplo)))
      = fator_biomassa_agricola (the (fase_agricola dados_exemplo))"
    by simp
  then show False
    by (simp only: exemplo_apos option.distinct)
qed

text \<open>
  C9, amended. A call never changes the engine (factor table and biomass catalog),
  nor the biomass id and the industrial dictionary of the request. A call that fails
  leaves the whole request unchanged. A call that returns a result writes into the
  caller's dictionaries that the request holds: \<^verbatim>\<open>fator_biomassa_agricola\<close> into the
  agricultural one, \<^verbatim>\<open>quantidade_biomassa_kg\<close> (the agricultural quantity, 0 if absent)
  into the distribution and use ones, and \<^verbatim>\<open>pci\<close> into the use one; every other key
  keeps its value, and a phase dictionary absent from the request stays absent.
\<close>

theorem calcular_efeitos:
  "fst (snd (calcular_intensidade_carbono self entrada)) = self
   \<and> biomassa (snd (snd (calcular_intensidade_carbono self entrada))) = biomassa entrada
   \<and> fase_industrial (snd (snd (calcular_intensidade_carbono self entrada)))
       = fase_industrial entrada
   \<and> (\<forall>e. fst (calcular_intensidade_carbono self entrada) = Inl e \<longrightarrow>
          snd (snd (calcular_intensidade_carbono self entrada)) = entrada)
   \<and> (\<forall>r. fst (calcular_intensidade_carbono self entrada) = Inr r \<longrightarrow>
          fase_agricola (snd (snd (calcular_intensidade_carbono self entrada)))
            = map_option
                (\<lambda>d. d\<lparr>fator_biomassa_agricola :=
                          Some (info_fator_biomassa_agricola (biomassa_info r))\<rparr>)
                (fase_agricola entrada)
          \<and> fase_distribuicao (snd (snd (calcular_intensidade_carbono self entrada)))
            = map_option
                (\<lambda>d. d\<lparr>quantidade_biomassa_kg :=
                          Some (get (quantidade_biomassa_kg (get (fase_agricola entrada) vazio))
                                  0)\<rparr>)
                (fase_distribuicao entrada)
          \<and> fase_uso (snd (snd (calcular_intensidade_carbono self entrada)))
            = map_option
                (\<lambda>d. d\<lparr>quantidade_biomassa_kg :=
                          Some (get (quantidade_biomassa_kg (get (fase_agricola entrada) vazio))
                                  0),
                        pci := Some (info_pci (biomassa_info r))\<rparr>)
                (fase_uso entrada))"
proof (cases "\<exists>n info. biomassa entrada = Some n \<and> n \<noteq> [] \<and> biomassas self n = Some info")
  case True
  then obtain n info where ac: "biomassa entrada = Some n" "n \<noteq> []" "biomassas self n = Some info"
    by blast
  have ag: "fase_agricola (entrada_apos info entrada)
              = map_option (\<lambda>d. d\<lparr>fator_biomassa_agricola :=
                                    Some (info_fator_biomassa_agricola info)\<rparr>)
                  (fase_agricola entrada)"
    by (cases "fase_agricola entrada")
       (simp_all add: entrada_apos_def dados_agricola_de_def get_simps)
  have q: "get (quantidade_biomassa_kg (dados_agricola_de info entrada)) 0
             = get (quantidade_biomassa_kg (get (fase_agricola entrada) vazio)) 0"
    by (simp add: dados_agricola_de_def)
  have di: "fase_distribuicao (entrada_apos info entrada)
              = map_option
                  (\<lambda>d. d\<lparr>quantidade_biomassa_kg :=
                            Some (get (quantidade_biomassa_kg (get (fase_agricola entrada) vazio))
                                    0)\<rparr>)
                  (fase_distribuicao entrada)"
    by (cases "fase_distribuicao entrada")
       (simp_all add: entrada_apos_def dados_distribuicao_de_def get_simps q)
  have us: "fase_uso (entrada_apos info entrada)
              = map_option
                  (\<lambda>d. d\<lparr>quantidade_biomassa_kg :=
                            Some (get (quantidade_biomassa_kg (get (fase_agricola entrada) vazio))
                                    0),
                          pci := Some (info_pci info)\<rparr>)
                  (fase_uso entrada)"
    by (cases "fase_uso entrada")
       (simp_all add: entrada_apos_def dados_uso_de_def get_simps q)
  have rest: "biomassa (entrada_apos info entrada) = biomassa entrada"
    "fase_industrial (entrada_apos info entrada) = fase_industrial entrada"
    by (simp_all add: entrada_apos_def)
  show ?thesis
    by (simp add: calcular_aceito [OF ac] combinar_indicadores ag di us rest)
next
  case False
  have "\<exists>e. fst (calcular_intensidade_carbono self entrada) = Inl e"
  proof (cases "biomassa entrada")
    case None
    then show ?thesis by (simp add: calcular_sem_nome)
  next
    case (Some n)
    show ?thesis
    proof (cases "n = []")
      case True
      with Some show ?thesis by (simp add: calcular_sem_nome)
    next
      case nv: False
      with Some False have "biomassas self n = None"
        by (cases "biomassas self n") auto
      with Some nv show ?thesis by (simp add: calcular_desconhecida)
    qed
  qed
  then obtain e where e: "fst (calcular_intensidade_carbono self entrada) = Inl e"
    by blast
  from calcular_erro_sem_efeito [OF e] e show ?thesis
    by simp
qed

text \<open>C9 amended, on the example request and on a request that fails.\<close>

theorem calcular_efeitos_witness:
  "(\<exists>r. fst (calcular_intensidade_carbono calculadora_referencia dados_exemplo) = Inr r)
   \<and> fst (snd (calcular_intensidade_carbono calculadora_referencia dados_exemplo))
       = calculadora_referencia
   \<and> fase_agricola (snd (snd (calcular_intensidade_carbono calculadora_referencia dados_exemplo)))
       = Some (vazio\<lparr>quantidade_biomassa_kg := Some 1000, distancia_transporte_km := Some 50,
                      uso_fertilizantes_kg := Some 10, uso_pesticidas_kg := Some 2,
                      luc_dluc_opcional_kg_co2 := Some 0,
                      fator_biomassa_agricola := Some 80\<rparr>)
   \<and> fase_distribuicao
         (snd (snd (calcular_intensidade_carbono calculadora_referencia dados_exemplo)))
       = Some (vazio\<lparr>modal_transporte := Some ''rodoviario'', distancia_km := Some 200,
                      quantidade_biomassa_kg := Some 1000\<rparr>)
   \<and> fase_uso (snd (snd (calcular_intensidade_carbono calculadora_referencia dados_exemplo)))
       = Some (vazio\<lparr>tipo_combustao := Some ''caldeira'',
                      quantidade_biomassa_kg := Some 1000, pci := Some 18.5\<rparr>)
   \<and> fst (calcular_intensidade_carbono calculadora_referencia
             (dados_exemplo\<lparr>biomassa := Some ''bambu''\<rparr>))
       = Inl (Biomassa_nao_encontrada ''bambu'')
   \<and> snd (snd (calcular_intensidade_carbono calculadora_referencia
                  (dados_exemplo\<lparr>biomassa := Some ''bambu''\<rparr>)))
       = dados_exemplo\<lparr>biomassa := Some ''bambu''\<rparr>"
proof -
  let ?res = "calcular_intensidade_carbono calculadora_referencia dados_exemplo"
  let ?bambu = "dados_exemplo\<lparr>biomassa := Some ''bambu''\<rparr>"
  obtain r where r: "fst ?res = Inr r" and info: "biomassa_info r = perfil_pinus"
    by (simp add: calcular_aceito [OF exemplo_aceito] combinar_indicadores)
  have unf: "fase_agricola dados_exemplo
               = Some (vazio\<lparr>quantidade_biomassa_kg := Some 1000,
                              distancia_transporte_km := Some 50,
                              uso_fertilizantes_kg := Some 10, uso_pesticidas_kg := Some 2,
                              luc_dluc_opcional_kg_co2 := Some 0\<rparr>)"
    "fase_distribuicao dados_exemplo
       = Some (vazio\<lparr>modal_transporte := Some ''rodoviario'', distancia_km := Some 200\<rparr>)"
    "fase_uso dados_exemplo = Some (vazio\<lparr>tipo_combustao := Some ''caldeira''\<rparr>)"
    by (simp_all add: dados_exemplo_def)
  have vals: "info_fator_biomassa_agricola perfil_pinus = 80" "info_pci perfil_pinus = 18.5"
    by (simp_all add: perfil_pinus_def)
  from calcular_efeitos [of calculadora_referencia dados_exemplo] r info
  have ok: "fst (snd ?res) = calculadora_referencia"
    "fase_agricola (snd (snd ?res))
       = Some (vazio\<lparr>quantidade_biomassa_kg := Some 1000, distancia_transporte_km := Some 50,
                      uso_fertilizantes_kg := Some 10, uso_pesticidas_kg := Some 2,
                      luc_dluc_opcional_kg_co2 := Some 0,
                      fator_biomassa_agricola := Some 80\<rparr>)"
    "fase_distribuicao (snd (snd ?res))
       = Some (vazio\<lparr>modal_transporte := Some ''rodoviario'', distancia_km := Some 200,
                      quantidade_biomassa_kg := Some 1000\<rparr>)"
    "fase_uso (snd (snd ?res))
       = Some (vazio\<lparr>tipo_combustao := Some ''caldeira'',
                      quantidade_biomassa_kg := Some 1000, pci := Some 18.5\<rparr>)"
    by (simp_all add: unf vals get_simps)
  have b: "fst (calcular_intensidade_carbono calculadora_referencia ?bambu)
             = Inl (Biomassa_nao_encontrada ''bambu'')"
    by (simp add: calcular_desconhecida calculadora_referencia_def biomassas_preset_def)
  with calcular_efeitos [of calculadora_referencia ?bambu]
  have b': "snd (snd (calcular_intensidade_carbono calculadora_referencia ?bambu)) = ?bambu"
    by blast
  from r ok b b' show ?thesis
    by blast
qed

section \<open>Properties of the validator\<close>


text \<open>
  Each check of a phase validator appends at most one message to the list built so
  far, whatever the earlier checks found.
\<close>

lemma acrescenta:
  "(if c1 then xs @ [a] else xs @ ys) = xs @ (if c1 then [a] else ys)"
  "(if c1 then xs @ [a] else xs) = xs @ (if c1 then [a] else [])"
  by simp_all

text \<open>The number of messages one check contributes.\<close>

lemma comprimento:
  "length (if c1 then [a] else if c2 then [b] else []) = of_bool (c1 \<or> c2)"
  "length (if c1 then [a] else []) = of_bool c1"
  by simp_all




lemma validar_fase_uso_length:
  "length (snd (validar_fase_uso d)) =
     of_bool (get (tipo_combustao d) ''caldeira'' \<notin> set tipos_validos)"
  by (simp only: validar_fase_uso_def Let_def split_def
      acrescenta snd_conv length_append list.size comprimento add_0)













end
